theory Spec2Isabelle
  imports Main
begin

section \<open>JavaScript values, errors and observable effects\<close>

text \<open>
  The request body, the documents of the store and the prefix argument of the lifecycle
  call are untyped at run time (\<open>any\<close>), so they are modelled as JavaScript values.
  Numbers are restricted to the integers and \<open>NaN\<close>, which is all that truthiness and
  string interpolation distinguish here. An object is its list of own properties; the
  first binding of a key is the one that is read.
\<close>

datatype js_value =
    JUndefined
  | JNull
  | JBool bool
  | JNum int
  | JNaN
  | JStr string
  | JArr "js_value list"
  | JObj "(string \<times> js_value) list"

text \<open>What \<open>if (!v)\<close> tests: \<open>undefined\<close>, \<open>null\<close>, \<open>false\<close>, \<open>0\<close>, \<open>NaN\<close>
  and the empty string are falsy, everything else is truthy.\<close>

fun truthy :: "js_value \<Rightarrow> bool" where
  "truthy JUndefined = False"
| "truthy JNull = False"
| "truthy (JBool b) = b"
| "truthy (JNum n) = (n \<noteq> 0)"
| "truthy JNaN = False"
| "truthy (JStr s) = (s \<noteq> [])"
| "truthy (JArr vs) = True"
| "truthy (JObj fs) = True"

text \<open>Thrown values. \<open>SubscriptionError\<close> and \<open>DocumentError\<close> carry a message and an
  HTTP status code; \<open>ExternalError\<close> stands for whatever a library (axios, aws-sdk,
  mongoose) rejects with: its \<open>code\<close> property, which may be missing, and its message.\<close>

datatype js_error =
    Error string
  | TypeError string
  | SyntaxError string
  | SubscriptionError string nat
  | DocumentError string nat
  | S3Error string
  | UploadError string
  | ExternalError "string option" string

fun err_message :: "js_error \<Rightarrow> string" where
  "err_message (Error m) = m"
| "err_message (TypeError m) = m"
| "err_message (SyntaxError m) = m"
| "err_message (SubscriptionError m c) = m"
| "err_message (DocumentError m c) = m"
| "err_message (S3Error m) = m"
| "err_message (UploadError m) = m"
| "err_message (ExternalError c m) = m"

fun err_code :: "js_error \<Rightarrow> string option" where
  "err_code (ExternalError c m) = c"
| "err_code e = None"

text \<open>\<open>err instanceof SubscriptionError\<close>.\<close>

fun instanceof_SubscriptionError :: "js_error \<Rightarrow> bool" where
  "instanceof_SubscriptionError (SubscriptionError m c) = True"
| "instanceof_SubscriptionError e = False"

text \<open>Property read \<open>v[k]\<close> for the keys the handler reads (\<open>Type\<close>, \<open>SubscribeURL\<close>,
  \<open>Message\<close>, \<open>UnsubscribeURL\<close>): a \<open>TypeError\<close> on \<open>null\<close> and \<open>undefined\<close>, the
  property of an object when it has one, \<open>undefined\<close> in every other case.\<close>

fun get_prop :: "js_value \<Rightarrow> string \<Rightarrow> js_error + js_value" where
  "get_prop JUndefined k = Inl (TypeError (''Cannot read property '' @ k @ '' of undefined''))"
| "get_prop JNull k = Inl (TypeError (''Cannot read property '' @ k @ '' of null''))"
| "get_prop (JObj fs) k = Inr (case map_of fs k of None \<Rightarrow> JUndefined | Some v \<Rightarrow> v)"
| "get_prop v k = Inr JUndefined"

text \<open>Optional chaining \<open>v?.k\<close>: \<open>undefined\<close> on \<open>null\<close> and \<open>undefined\<close>.\<close>

fun opt_chain :: "js_value \<Rightarrow> string \<Rightarrow> js_value" where
  "opt_chain (JObj fs) k = (case map_of fs k of None \<Rightarrow> JUndefined | Some v \<Rightarrow> v)"
| "opt_chain v k = JUndefined"

text \<open>String interpolation \<open>`${v}`\<close>.\<close>

definition digit_char :: "nat \<Rightarrow> char" where
  "digit_char d = char_of (d + 48)"

fun decimal :: "nat \<Rightarrow> string" where
  "decimal n = (if n div 10 = 0 then [] else decimal (n div 10)) @ [digit_char (n mod 10)]"

declare decimal.simps [simp del]

fun join_comma :: "string list \<Rightarrow> string" where
  "join_comma [] = []"
| "join_comma [s] = s"
| "join_comma (s # t # ss) = s @ '','' @ join_comma (t # ss)"

fun js_to_string :: "js_value \<Rightarrow> string" where
  "js_to_string JUndefined = ''undefined''"
| "js_to_string JNull = ''null''"
| "js_to_string (JBool b) = (if b then ''true'' else ''false'')"
| "js_to_string (JNum n) =
     (if n < 0 then ''-'' @ decimal (nat (- n)) else decimal (nat n))"
| "js_to_string JNaN = ''NaN''"
| "js_to_string (JStr s) = s"
| "js_to_string (JArr vs) =
     join_comma (map (\<lambda>v. if v = JUndefined \<or> v = JNull then [] else js_to_string v) vs)"
| "js_to_string (JObj fs) = ''[object Object]''"

text \<open>A header that is not present reads as \<open>undefined\<close>.\<close>

fun header_to_string :: "string option \<Rightarrow> string" where
  "header_to_string None = ''undefined''"
| "header_to_string (Some s) = s"

text \<open>
  Everything a function does besides returning or throwing is recorded, in program order,
  in a list of effects: log lines with their severity, outbound calls, and what the
  handler does to the HTTP response and the middleware chain.
\<close>

datatype log_level = Debug | ErrorLevel

datatype log_payload =
    Msg string
  | Fmt string "js_value list"
  | Err js_error

record lifecycle_rule =
  Expiration_Days :: int
  Filter_Prefix :: js_value
  Status :: string

record put_object_request =
  put_Bucket :: string
  put_Key :: string
  put_Body :: string
  put_ContentType :: string
  put_ACL :: string
  put_CacheControl :: string
  put_Metadata :: "(string \<times> string) list option"

record head_object_request =
  head_Bucket :: string
  head_Key :: string

record put_lifecycle_request =
  lc_Bucket :: string
  lc_Rules :: "lifecycle_rule list"

datatype s3_request =
    Upload put_object_request
  | HeadObject head_object_request
  | PutBucketLifecycleConfiguration put_lifecycle_request

datatype effect =
    Log log_level log_payload
  | AxiosGet js_value
  | ResStatus nat
  | ResJson js_value
  | SetLocal string js_value
  | CallNext "js_error option"
  | S3Call s3_request
  | ModelFind "string list"

fun is_error_log :: "effect \<Rightarrow> bool" where
  "is_error_log (Log ErrorLevel p) = True"
| "is_error_log e = False"

fun is_response :: "effect \<Rightarrow> bool" where
  "is_response (ResStatus c) = True"
| "is_response (ResJson b) = True"
| "is_response e = False"

fun is_s3_call :: "effect \<Rightarrow> bool" where
  "is_s3_call (S3Call r) = True"
| "is_s3_call e = False"

fun is_model_find :: "effect \<Rightarrow> bool" where
  "is_model_find (ModelFind ids) = True"
| "is_model_find e = False"

text \<open>The configuration module and the \<open>url-join\<close> import, passed explicitly.\<close>

record env =
  SNS_TOPIC_SUBSCRIPTION_ARN :: "string option"
  S3_ASSETS_BUCKET :: string
  S3_ENDPOINT_URL :: string
  S3_MAP_TILES_TTL :: string
  urljoin :: "string list \<Rightarrow> string"


section \<open>The SNS subscriber middleware\<close>

text \<open>
  \<open>req.header(name)\<close> and \<open>req.body\<close>. The two header names the handler reads are the
  keys of the association list.
\<close>

record request =
  req_headers :: "(string \<times> string) list"
  req_body :: js_value

definition req_header :: "request \<Rightarrow> string \<Rightarrow> string option" where
  "req_header req name = map_of (req_headers req) name"

text \<open>
  \<open>handleSubscriptionResponse\<close>. \<open>axios_get\<close> is the outcome of \<open>await axios.get(url)\<close>:
  \<open>Inr status\<close> when the promise resolves with a response, \<open>Inl err\<close> when it rejects
  (no connection, a timeout, or a status that axios itself turns into a rejection).
  The \<open>catch\<close> block logs whatever was thrown inside \<open>try\<close> and rethrows it only when it
  is a \<open>SubscriptionError\<close>.
\<close>

definition handleSubscriptionResponse_catch ::
  "effect list \<Rightarrow> js_error \<Rightarrow> (js_error + unit) \<times> effect list" where
  "handleSubscriptionResponse_catch fx err =
     (if instanceof_SubscriptionError err
      then (Inl err, fx @ [Log ErrorLevel (Err err)])
      else (Inr (), fx @ [Log ErrorLevel (Err err)]))"

definition handleSubscriptionResponse ::
  "(js_value \<Rightarrow> js_error + nat) \<Rightarrow> js_value \<Rightarrow> (js_error + unit) \<times> effect list" where
  "handleSubscriptionResponse axios_get subscribeURL =
     (case axios_get subscribeURL of
        Inl err \<Rightarrow> handleSubscriptionResponse_catch [AxiosGet subscribeURL] err
      | Inr statusCode \<Rightarrow>
          if statusCode = 200
          then (Inr (),
                [AxiosGet subscribeURL,
                 Log Debug (Msg ''Successfully confirmed SNS subscription.'')])
          else handleSubscriptionResponse_catch [AxiosGet subscribeURL]
                 (SubscriptionError
                    (''Failed to confirm SNS subscription. Received response ''
                       @ decimal statusCode @ '' from: '' @ js_to_string subscribeURL)
                    500))"

text \<open>
  The body of \<open>handleSNSMessage\<close>, the async function given to \<open>asyncHandler\<close>.
  \<open>JSON_parse\<close> is \<open>JSON.parse\<close>: \<open>Inl\<close> is the \<open>SyntaxError\<close> it throws.
  The notification branch reads \<open>UnsubscribeURL\<close> into a local constant that is not
  used afterwards.
\<close>

definition SuccessResponse :: js_value where
  "SuccessResponse =
     JObj [(''code'', JNum 200), (''data'', JObj [(''success'', JBool True)])]"

definition handleSNSMessage_fn ::
  "env \<Rightarrow> (js_value \<Rightarrow> js_error + nat) \<Rightarrow> (js_value \<Rightarrow> js_error + js_value) \<Rightarrow> request
     \<Rightarrow> (js_error + unit) \<times> effect list" where
  "handleSNSMessage_fn cfg axios_get JSON_parse req =
     (let eventType = req_header req ''X-Amz-Sns-Message-Type'' in
      if eventType \<notin> set [Some ''SubscriptionConfirmation'', Some ''Notification'']
      then (Inl (SubscriptionError
                   (''Unhandled SNS event type: '' @ header_to_string eventType) 400), [])
      else
      let topicArn = req_header req ''X-Amz-Sns-Topic-Arn'' in
      if topicArn \<noteq> SNS_TOPIC_SUBSCRIPTION_ARN cfg
      then (Inl (SubscriptionError
                   (''Unrecognized SNS topic Arn: '' @ header_to_string topicArn) 400), [])
      else
      let snsMessage = req_body req in
      if \<not> truthy snsMessage
      then (Inl (SubscriptionError ''Could not decode SNS message.'' 400), [])
      else
      case get_prop snsMessage ''Type'' of
        Inl e \<Rightarrow> (Inl e, [])
      | Inr messageType \<Rightarrow>
          if messageType = JStr ''SubscriptionConfirmation''
          then
            (case get_prop snsMessage ''SubscribeURL'' of
               Inl e \<Rightarrow> (Inl e, [])
             | Inr subscribeURL \<Rightarrow>
                 (case handleSubscriptionResponse axios_get subscribeURL of
                    (Inl e, fx) \<Rightarrow> (Inl e, fx)
                  | (Inr u, fx) \<Rightarrow> (Inr (), fx @ [ResStatus 200, ResJson SuccessResponse])))
          else if messageType = JStr ''Notification''
          then
            (case get_prop snsMessage ''Message'' of
               Inl e \<Rightarrow> (Inl e, [])
             | Inr rawMessage \<Rightarrow>
                 (case JSON_parse rawMessage of
                    Inl e \<Rightarrow> (Inl e, [])
                  | Inr message \<Rightarrow>
                      (case get_prop snsMessage ''UnsubscribeURL'' of
                         Inl e \<Rightarrow> (Inl e, [])
                       | Inr unsubscribeURL \<Rightarrow>
                           (Inr (), [SetLocal ''snsMessage'' message, CallNext None]))))
          else (Inr (), []))"

text \<open>
  \<open>asyncHandler\<close> runs the function and hands a rejection to \<open>next(err)\<close>, the error
  path of the middleware chain; \<open>handleSNSMessage\<close> is the wrapped handler, and what it
  does is its list of effects.
\<close>

definition asyncHandler :: "(js_error + unit) \<times> effect list \<Rightarrow> effect list" where
  "asyncHandler run =
     (case run of
        (Inl err, fx) \<Rightarrow> fx @ [CallNext (Some err)]
      | (Inr u, fx) \<Rightarrow> fx)"

definition handleSNSMessage ::
  "env \<Rightarrow> (js_value \<Rightarrow> js_error + nat) \<Rightarrow> (js_value \<Rightarrow> js_error + js_value) \<Rightarrow> request
     \<Rightarrow> effect list" where
  "handleSNSMessage cfg axios_get JSON_parse req =
     asyncHandler (handleSNSMessage_fn cfg axios_get JSON_parse req)"


section \<open>The reference check of the document models\<close>

text \<open>
  \<open>checkWorkspaceRefs\<close>. \<open>model_find ids\<close> is the outcome of
  \<open>await model.find({_id: {$in: ids}}).select('organization')\<close>: the documents found,
  or the error the query rejects with. The documents are \<open>any\<close> and are read with
  \<open>r?.organization\<close>. \<open>refIds\<close> is \<open>None\<close> when the argument is missing, which the
  guard \<open>refIds && refIds.length\<close> allows for.
\<close>

definition checkWorkspaceRefs ::
  "(string list \<Rightarrow> js_error + js_value list) \<Rightarrow> string list option \<Rightarrow> string
     \<Rightarrow> (js_error + unit) \<times> effect list" where
  "checkWorkspaceRefs model_find refIds organization =
     (if organization = []
      then (Inl (Error ''Missing required parameter: organization''), [])
      else
      case refIds of
        None \<Rightarrow> (Inr (), [])
      | Some ids \<Rightarrow>
          if length ids = 0 then (Inr (), [])
          else
          let fx = [Log Debug
                      (Fmt ''[checkWorkspaceRefs] checking references for organization %s: %s''
                         [JStr organization, JArr (map JStr ids)]),
                    ModelFind ids]
          in
          (case model_find ids of
             Inl e \<Rightarrow> (Inl e, fx)
           | Inr res \<Rightarrow>
               let isValid =
                     list_all (\<lambda>r. opt_chain r ''organization'' = JStr organization) res
               in
               if \<not> isValid
               then (Inl (DocumentError
                            ''Could not save document. Invalid references saved on document.''
                            400), fx)
               else (Inr (), fx)))"

text \<open>
  The document store behind \<open>model.find\<close>: a collection is the list of its documents,
  each an object with an \<open>_id\<close>. The query returns the documents whose \<open>_id\<close> is one of
  the given ids, projected to \<open>_id\<close> and \<open>organization\<close>; an id that no document has
  contributes nothing.
\<close>

fun select_organization :: "js_value \<Rightarrow> js_value" where
  "select_organization (JObj fs) =
     JObj (filter (\<lambda>kv. fst kv = ''_id'' \<or> fst kv = ''organization'') fs)"
| "select_organization v = v"

definition referenced :: "string list \<Rightarrow> js_value \<Rightarrow> bool" where
  "referenced ids d = (opt_chain d ''_id'' \<in> set (map JStr ids))"

definition store_find :: "js_value list \<Rightarrow> string list \<Rightarrow> js_error + js_value list" where
  "store_find docs ids = Inr (map select_organization (filter (referenced ids) docs))"


section \<open>The S3 helpers\<close>

text \<open>
  The object store behind the \<open>aws-sdk\<close> client, as far as the three calls of this
  module observe it: the objects by bucket and key, the lifecycle rules by bucket, the
  entity tag the store computes for a body, the location it reports, and \<open>s3_fault\<close>,
  which says for each request whether the store (or the network) rejects it and with
  which error. A \<open>headObject\<close> for a key that has no object is rejected with code
  \<open>NotFound\<close>; an upload answers with the bucket and key of the request.
\<close>

record s3_object =
  obj_request :: put_object_request
  obj_etag :: string

record send_data =
  sd_Location :: string
  sd_ETag :: string
  sd_Bucket :: string
  sd_Key :: string

record head_object_output =
  ho_ContentLength :: nat
  ho_ETag :: string
  ho_Metadata :: "(string \<times> string) list option"

record s3_backend =
  s3_objects :: "string \<times> string \<Rightarrow> s3_object option"
  s3_lifecycle :: "string \<Rightarrow> lifecycle_rule list option"
  s3_fault :: "s3_request \<Rightarrow> js_error option"
  s3_etag_of :: "string \<Rightarrow> string"
  s3_location_of :: "string \<Rightarrow> string \<Rightarrow> string"

definition s3_upload ::
  "s3_backend \<Rightarrow> put_object_request \<Rightarrow> (js_error + send_data) \<times> s3_backend" where
  "s3_upload s3 config =
     (case s3_fault s3 (Upload config) of
        Some err \<Rightarrow> (Inl err, s3)
      | None \<Rightarrow>
          (Inr \<lparr>sd_Location = s3_location_of s3 (put_Bucket config) (put_Key config),
                sd_ETag = s3_etag_of s3 (put_Body config),
                sd_Bucket = put_Bucket config,
                sd_Key = put_Key config\<rparr>,
           s3\<lparr>s3_objects := (s3_objects s3)
                 ((put_Bucket config, put_Key config) \<mapsto>
                    \<lparr>obj_request = config, obj_etag = s3_etag_of s3 (put_Body config)\<rparr>)\<rparr>))"

definition s3_headObject ::
  "s3_backend \<Rightarrow> head_object_request \<Rightarrow> js_error + head_object_output" where
  "s3_headObject s3 config =
     (case s3_fault s3 (HeadObject config) of
        Some err \<Rightarrow> Inl err
      | None \<Rightarrow>
          (case s3_objects s3 (head_Bucket config, head_Key config) of
             None \<Rightarrow> Inl (ExternalError (Some ''NotFound'') ''Not Found'')
           | Some ob \<Rightarrow>
               Inr \<lparr>ho_ContentLength = length (put_Body (obj_request ob)),
                     ho_ETag = obj_etag ob,
                     ho_Metadata = put_Metadata (obj_request ob)\<rparr>))"

definition s3_putBucketLifecycleConfiguration ::
  "s3_backend \<Rightarrow> put_lifecycle_request \<Rightarrow> (js_error + js_value) \<times> s3_backend" where
  "s3_putBucketLifecycleConfiguration s3 params =
     (case s3_fault s3 (PutBucketLifecycleConfiguration params) of
        Some err \<Rightarrow> (Inl err, s3)
      | None \<Rightarrow>
          (Inr (JObj []),
           s3\<lparr>s3_lifecycle := (s3_lifecycle s3)(lc_Bucket params \<mapsto> lc_Rules params)\<rparr>))"

record storage_event =
  bucket :: string
  key :: string
  storageUrl :: string
  etag :: string
  metadata :: "(string \<times> string) list option"

definition getStorageUrl :: "env \<Rightarrow> string \<Rightarrow> string \<Rightarrow> string" where
  "getStorageUrl cfg bucket_name key_path = urljoin cfg [S3_ENDPOINT_URL cfg, bucket_name, key_path]"

text \<open>A parameter with a default value: \<open>None\<close> is the omitted argument.\<close>

fun default_to :: "'a \<Rightarrow> 'a option \<Rightarrow> 'a" where
  "default_to d None = d"
| "default_to d (Some x) = x"

text \<open>\<open>s3StreamUpload\<close>. The readable stream is the string of bytes it delivers.\<close>

definition s3StreamUpload ::
  "env \<Rightarrow> s3_backend \<Rightarrow> string \<Rightarrow> string \<Rightarrow> string \<Rightarrow> (string \<times> string) list option
     \<Rightarrow> string option \<Rightarrow> ((js_error + storage_event) \<times> effect list) \<times> s3_backend" where
  "s3StreamUpload cfg s3 readable keyPath contentType metadata_arg bucketName_arg =
     (let bucketName = default_to (S3_ASSETS_BUCKET cfg) bucketName_arg;
          config0 = \<lparr>put_Bucket = bucketName,
                     put_Key = keyPath,
                     put_Body = readable,
                     put_ContentType = contentType,
                     put_ACL = ''public-read'',
                     put_CacheControl = ''max-age='' @ S3_MAP_TILES_TTL cfg,
                     put_Metadata = None\<rparr>;
          config = (case metadata_arg of
                      Some m \<Rightarrow> config0\<lparr>put_Metadata := Some m\<rparr>
                    | None \<Rightarrow> config0)
      in
      case s3_upload s3 config of
        (Inr meta, s3') \<Rightarrow>
          ((Inr \<lparr>bucket = sd_Bucket meta,
                  key = sd_Key meta,
                  storageUrl = getStorageUrl cfg (sd_Bucket meta) (sd_Key meta),
                  etag = sd_ETag meta,
                  metadata = None\<rparr>,
            [S3Call (Upload config),
             Log Debug (Msg (''[s3StreamUpload] successfully uploaded: '' @ sd_Location meta))]),
           s3')
      | (Inl err, s3') \<Rightarrow>
          ((Inl (UploadError (''Failed to upload file to S3. '' @ err_message err)),
            [S3Call (Upload config), Log ErrorLevel (Msg (err_message err))]),
           s3'))"

text \<open>
  \<open>s3KeyExists\<close>. The \<open>catch\<close> block logs the message of what was thrown with
  \<open>logger.error\<close>, then rethrows as \<open>UploadError\<close> unless the code is \<open>NotFound\<close>; in
  that case the function ends without a \<open>return\<close>, and its result is \<open>undefined\<close>
  (\<open>None\<close>).
\<close>

definition s3KeyExists ::
  "env \<Rightarrow> s3_backend \<Rightarrow> string \<Rightarrow> string option
     \<Rightarrow> (js_error + storage_event option) \<times> effect list" where
  "s3KeyExists cfg s3 keyPath bucketName_arg =
     (let bucketName = default_to (S3_ASSETS_BUCKET cfg) bucketName_arg;
          config = \<lparr>head_Bucket = bucketName, head_Key = keyPath\<rparr>
      in
      case s3_headObject s3 config of
        Inr meta \<Rightarrow>
          (Inr (Some \<lparr>bucket = head_Bucket config,
                       key = head_Key config,
                       storageUrl = getStorageUrl cfg (head_Bucket config) (head_Key config),
                       etag = ho_ETag meta,
                       metadata = ho_Metadata meta\<rparr>),
           [S3Call (HeadObject config),
            Log Debug (Msg (''[s3KeyExists] found S3 key ''
                              @ decimal (ho_ContentLength meta) @ '' bytes: '' @ keyPath))])
      | Inl err \<Rightarrow>
          if err_code err \<noteq> Some ''NotFound''
          then (Inl (UploadError (''Failed to request file meta from S3. '' @ err_message err)),
                [S3Call (HeadObject config), Log ErrorLevel (Msg (err_message err))])
          else (Inr None,
                [S3Call (HeadObject config), Log ErrorLevel (Msg (err_message err))]))"

text \<open>
  \<open>createLifecyclePolicy\<close>. The prefix argument is whatever the caller passes at run
  time; lodash's \<open>isString\<close> and \<open>isArray\<close> decide its shape. The casts to \<open>string\<close>
  and \<open>string[]\<close> do nothing at run time, so the rules carry the values as they are.
\<close>

fun isString :: "js_value \<Rightarrow> bool" where
  "isString (JStr s) = True"
| "isString v = False"

fun isArray :: "js_value \<Rightarrow> bool" where
  "isArray (JArr vs) = True"
| "isArray v = False"

fun every :: "js_value \<Rightarrow> (js_value \<Rightarrow> bool) \<Rightarrow> bool" where
  "every (JArr vs) p = list_all p vs"
| "every v p = False"

fun elements :: "js_value \<Rightarrow> js_value list" where
  "elements (JArr vs) = vs"
| "elements v = []"

definition keyPrefixes_of :: "js_value \<Rightarrow> js_error + js_value list" where
  "keyPrefixes_of objectKeyPrefix =
     (if isString objectKeyPrefix then Inr [objectKeyPrefix]
      else if isArray objectKeyPrefix \<and> every objectKeyPrefix isString
      then Inr (elements objectKeyPrefix)
      else Inl (S3Error ''Unsupported object key prefix format.''))"

definition createLifecyclePolicy ::
  "env \<Rightarrow> s3_backend \<Rightarrow> js_value \<Rightarrow> string option \<Rightarrow> int option
     \<Rightarrow> ((js_error + bool) \<times> effect list) \<times> s3_backend" where
  "createLifecyclePolicy cfg s3 objectKeyPrefix bucketName_arg expDaysTTL_arg =
     (let bucketName = default_to (S3_ASSETS_BUCKET cfg) bucketName_arg;
          expDaysTTL = default_to 1 expDaysTTL_arg
      in
      case keyPrefixes_of objectKeyPrefix of
        Inl err \<Rightarrow> ((Inl err, []), s3)
      | Inr keyPrefixes \<Rightarrow>
          let fx = [Log Debug (Fmt ''[createLifecyclePolicy] object key prefix: %O''
                                 [JArr keyPrefixes])];
              params = \<lparr>lc_Bucket = bucketName,
                        lc_Rules = map (\<lambda>prefix. \<lparr>Expiration_Days = expDaysTTL,
                                                   Filter_Prefix = prefix,
                                                   Status = ''Enabled''\<rparr>) keyPrefixes\<rparr>
          in
          (case s3_putBucketLifecycleConfiguration s3 params of
             (Inr res, s3') \<Rightarrow>
               ((Inr True,
                 fx @ [S3Call (PutBucketLifecycleConfiguration params),
                       Log Debug (Fmt ''[createLifecyclePolicy] client responded with: %s''
                                    [JStr (''{}'')])]),
                s3')
           | (Inl err, s3') \<Rightarrow>
               ((Inr False,
                 fx @ [S3Call (PutBucketLifecycleConfiguration params),
                       Log ErrorLevel (Msg (err_message err))]),
                s3')))"


section \<open>The errors by the names of the specification\<close>

text \<open>
  The three client errors of the subscriber are all \<open>SubscriptionError\<close>s with status
  400; they differ in their message. The confirmation failure has status 500.
\<close>

definition UnsupportedMessageType :: "string option \<Rightarrow> js_error" where
  "UnsupportedMessageType eventType =
     SubscriptionError (''Unhandled SNS event type: '' @ header_to_string eventType) 400"

definition UntrustedTopic :: "string option \<Rightarrow> js_error" where
  "UntrustedTopic topicArn =
     SubscriptionError (''Unrecognized SNS topic Arn: '' @ header_to_string topicArn) 400"

definition MalformedEnvelope :: js_error where
  "MalformedEnvelope = SubscriptionError ''Could not decode SNS message.'' 400"

definition HandshakeConfirmationFailed :: "nat \<Rightarrow> js_value \<Rightarrow> js_error" where
  "HandshakeConfirmationFailed statusCode subscribeURL =
     SubscriptionError
       (''Failed to confirm SNS subscription. Received response ''
          @ decimal statusCode @ '' from: '' @ js_to_string subscribeURL)
       500"

definition CrossTenantReference :: js_error where
  "CrossTenantReference =
     DocumentError ''Could not save document. Invalid references saved on document.'' 400"

definition supported_type :: "string option \<Rightarrow> bool" where
  "supported_type eventType =
     (eventType = Some ''SubscriptionConfirmation'' \<or> eventType = Some ''Notification'')"

text \<open>What a run of the handler stored in \<open>res.locals\<close>, and whether it called
  \<open>next()\<close> without an error.\<close>

fun attached :: "effect list \<Rightarrow> (string \<times> js_value) list" where
  "attached [] = []"
| "attached (SetLocal k v # fx) = (k, v) # attached fx"
| "attached (e # fx) = attached fx"

fun is_forward :: "effect \<Rightarrow> bool" where
  "is_forward (CallNext None) = True"
| "is_forward e = False"


section \<open>Concrete inputs\<close>

fun join_slash :: "string list \<Rightarrow> string" where
  "join_slash [] = []"
| "join_slash [s] = s"
| "join_slash (s # t # ss) = s @ ''/'' @ join_slash (t # ss)"

definition example_env :: env where
  "example_env =
     \<lparr>SNS_TOPIC_SUBSCRIPTION_ARN = Some ''arn:aws:sns:us-east-1:000000000000:result'',
      S3_ASSETS_BUCKET = ''assets'',
      S3_ENDPOINT_URL = ''http://localhost:4572'',
      S3_MAP_TILES_TTL = ''31536000'',
      urljoin = join_slash\<rparr>"

definition axios_status :: "nat \<Rightarrow> js_value \<Rightarrow> js_error + nat" where
  "axios_status statusCode url = Inr statusCode"

definition axios_unreachable :: "js_value \<Rightarrow> js_error + nat" where
  "axios_unreachable url = Inl (ExternalError (Some ''ECONNREFUSED'') ''connect ECONNREFUSED'')"

definition tenant_message :: string where
  "tenant_message =
     [CHR ''{'', CHR 0x22] @ ''tenant'' @ [CHR 0x22, CHR '':'', CHR 0x22] @ ''t1''
       @ [CHR 0x22, CHR ''}'']"

definition JSON_parse_tenant :: "js_value \<Rightarrow> js_error + js_value" where
  "JSON_parse_tenant v =
     (if v = JStr tenant_message then Inr (JObj [(''tenant'', JStr ''t1'')])
      else Inl (SyntaxError ''Unexpected token''))"

definition sns_request :: "string \<Rightarrow> string \<Rightarrow> js_value \<Rightarrow> request" where
  "sns_request eventType topicArn body =
     \<lparr>req_headers = [(''X-Amz-Sns-Message-Type'', eventType),
                      (''X-Amz-Sns-Topic-Arn'', topicArn)],
      req_body = body\<rparr>"

definition handshake_body :: js_value where
  "handshake_body =
     JObj [(''Type'', JStr ''SubscriptionConfirmation''),
           (''SubscribeURL'', JStr ''https://sns.example/confirm'')]"

definition notification_body :: js_value where
  "notification_body =
     JObj [(''Type'', JStr ''Notification''),
           (''Message'', JStr tenant_message),
           (''UnsubscribeURL'', JStr ''https://x'')]"

definition unsubscribe_body :: js_value where
  "unsubscribe_body = JObj [(''Type'', JStr ''UnsubscribeConfirmation'')]"

definition empty_s3 :: s3_backend where
  "empty_s3 =
     \<lparr>s3_objects = Map.empty,
      s3_lifecycle = Map.empty,
      s3_fault = (\<lambda>r. None),
      s3_etag_of = (\<lambda>body. ''etag:'' @ rev body),
      s3_location_of = (\<lambda>b k. join_slash [''http://localhost:4572'', b, k])\<rparr>"

definition denied_s3 :: s3_backend where
  "denied_s3 =
     empty_s3\<lparr>s3_fault := (\<lambda>r. Some (ExternalError (Some ''AccessDenied'') ''Access Denied''))\<rparr>"

definition trusted_arn :: string where
  "trusted_arn = ''arn:aws:sns:us-east-1:000000000000:result''"

definition other_arn :: string where
  "other_arn = ''arn:aws:sns:us-east-1:000000000000:other''"

definition uploaded_s3 :: s3_backend where
  "uploaded_s3 =
     snd (s3StreamUpload example_env empty_s3 ''bytes'' ''k/x.png'' ''image/png'' None
            (Some ''maps''))"

definition example_docs :: "js_value list" where
  "example_docs =
     [JObj [(''_id'', JStr ''a1''), (''organization'', JStr ''t1''), (''name'', JStr ''A'')],
      JObj [(''_id'', JStr ''b2''), (''organization'', JStr ''t2'')],
      JObj [(''_id'', JStr ''c3''), (''name'', JStr ''no workspace'')],
      JObj [(''_id'', JStr ''d4''), (''organization'', JNull)]]"


section \<open>The SNS subscriber: properties\<close>

lemma truthy_get_prop: "truthy v \<Longrightarrow> \<exists>w. get_prop v k = Inr w"
  by (cases v) simp_all

text \<open>
  C4, as the code has it. The message type is checked before the topic, so an envelope
  from another topic is always rejected with a \<open>SubscriptionError\<close> of status 400 and
  without any effect, whatever its body; the error is \<open>UntrustedTopic\<close> when the
  message-type header is one of the two supported values, and \<open>UnsupportedMessageType\<close>
  when it is not.
\<close>

theorem untrusted_topic_rejected:
  assumes "req_header req ''X-Amz-Sns-Topic-Arn'' \<noteq> SNS_TOPIC_SUBSCRIPTION_ARN cfg"
  shows "handleSNSMessage_fn cfg axios_get JSON_parse req =
           (Inl (if supported_type (req_header req ''X-Amz-Sns-Message-Type'')
                 then UntrustedTopic (req_header req ''X-Amz-Sns-Topic-Arn'')
                 else UnsupportedMessageType (req_header req ''X-Amz-Sns-Message-Type'')), [])"
  using assms
  by (simp add: handleSNSMessage_fn_def supported_type_def UntrustedTopic_def
        UnsupportedMessageType_def Let_def)

text \<open>A notification from another topic is rejected as untrusted.\<close>

theorem untrusted_topic_rejected_witness:
  "req_header (sns_request ''Notification'' other_arn notification_body) ''X-Amz-Sns-Topic-Arn''
     \<noteq> SNS_TOPIC_SUBSCRIPTION_ARN example_env
   \<and> handleSNSMessage_fn example_env axios_unreachable JSON_parse_tenant
       (sns_request ''Notification'' other_arn notification_body)
     = (Inl (UntrustedTopic (Some other_arn)), [])"
  using untrusted_topic_rejected [of "sns_request ''Notification'' other_arn notification_body"
      example_env axios_unreachable JSON_parse_tenant]
  by (simp add: supported_type_def req_header_def sns_request_def example_env_def other_arn_def)

text \<open>
  C4 as stated fails: with the message-type header \<open>Foo\<close> and an untrusted topic the
  handler throws the error for the unsupported message type, not the one for the topic.
\<close>

theorem untrusted_topic_type_counterexample:
  "req_header (sns_request ''Foo'' other_arn notification_body) ''X-Amz-Sns-Topic-Arn''
     \<noteq> SNS_TOPIC_SUBSCRIPTION_ARN example_env
   \<and> fst (handleSNSMessage_fn example_env axios_unreachable JSON_parse_tenant
        (sns_request ''Foo'' other_arn notification_body))
       = Inl (UnsupportedMessageType (Some ''Foo''))
   \<and> UnsupportedMessageType (Some ''Foo'') \<noteq> UntrustedTopic (Some other_arn)"
  by (simp add: handleSNSMessage_fn_def req_header_def sns_request_def example_env_def
        UnsupportedMessageType_def UntrustedTopic_def other_arn_def)

text \<open>
  C9: an envelope that passes the three checks and whose body has a \<open>Type\<close> other than
  \<open>SubscriptionConfirmation\<close> and \<open>Notification\<close> falls through both branches: the
  function returns without throwing and the handler has no effect at all, so no
  response is sent and \<open>next\<close> is not called.
\<close>

theorem other_body_type_no_action:
  assumes "supported_type (req_header req ''X-Amz-Sns-Message-Type'')"
    and "req_header req ''X-Amz-Sns-Topic-Arn'' = SNS_TOPIC_SUBSCRIPTION_ARN cfg"
    and "truthy (req_body req)"
    and "get_prop (req_body req) ''Type'' \<noteq> Inr (JStr ''SubscriptionConfirmation'')"
    and "get_prop (req_body req) ''Type'' \<noteq> Inr (JStr ''Notification'')"
  shows "handleSNSMessage_fn cfg axios_get JSON_parse req = (Inr (), [])
       \<and> handleSNSMessage cfg axios_get JSON_parse req = []"
proof -
  obtain t where t: "get_prop (req_body req) ''Type'' = Inr t"
    using truthy_get_prop [OF assms(3)] by blast
  have "handleSNSMessage_fn cfg axios_get JSON_parse req = (Inr (), [])"
    using assms t by (simp add: handleSNSMessage_fn_def supported_type_def Let_def)
  then show ?thesis by (simp add: handleSNSMessage_def asyncHandler_def)
qed

theorem other_body_type_no_action_witness:
  "truthy (req_body (sns_request ''Notification'' trusted_arn unsubscribe_body))
   \<and> handleSNSMessage example_env (axios_status 200) JSON_parse_tenant
       (sns_request ''Notification'' trusted_arn unsubscribe_body) = []"
  using other_body_type_no_action [of "sns_request ''Notification'' trusted_arn unsubscribe_body"
      example_env "axios_status 200" JSON_parse_tenant]
  by (simp add: supported_type_def req_header_def sns_request_def example_env_def
        unsubscribe_body_def trusted_arn_def)

text \<open>
  C5, as the code has it: for a notification from the trusted topic whose \<open>Message\<close>
  parses, the function does not throw, the decoded payload is stored in
  \<open>res.locals.snsMessage\<close>, \<open>next()\<close> is called once, and no response is sent.
\<close>

theorem notification_forwarded:
  assumes "req_header req ''X-Amz-Sns-Message-Type'' = Some ''Notification''"
    and "req_header req ''X-Amz-Sns-Topic-Arn'' = SNS_TOPIC_SUBSCRIPTION_ARN cfg"
    and "truthy (req_body req)"
    and "get_prop (req_body req) ''Type'' = Inr (JStr ''Notification'')"
    and "get_prop (req_body req) ''Message'' = Inr rawMessage"
    and "JSON_parse rawMessage = Inr message"
  shows "fst (handleSNSMessage_fn cfg axios_get JSON_parse req) = Inr ()
       \<and> map_of (attached (handleSNSMessage cfg axios_get JSON_parse req)) ''snsMessage''
           = Some message
       \<and> filter is_forward (handleSNSMessage cfg axios_get JSON_parse req) = [CallNext None]
       \<and> filter is_response (handleSNSMessage cfg axios_get JSON_parse req) = []"
proof -
  obtain u where u: "get_prop (req_body req) ''UnsubscribeURL'' = Inr u"
    using truthy_get_prop [OF assms(3)] by blast
  have "handleSNSMessage_fn cfg axios_get JSON_parse req =
           (Inr (), [SetLocal ''snsMessage'' message, CallNext None])"
    using assms u by (simp add: handleSNSMessage_fn_def Let_def)
  then show ?thesis by (simp add: handleSNSMessage_def asyncHandler_def)
qed

text \<open>The scenario of the specification: the payload \<open>{tenant: "t1"}\<close> is forwarded.\<close>

theorem notification_forwarded_witness:
  "JSON_parse_tenant (JStr tenant_message) = Inr (JObj [(''tenant'', JStr ''t1'')])
   \<and> map_of (attached (handleSNSMessage example_env axios_unreachable JSON_parse_tenant
        (sns_request ''Notification'' trusted_arn notification_body))) ''snsMessage''
       = Some (JObj [(''tenant'', JStr ''t1'')])
   \<and> filter is_forward (handleSNSMessage example_env axios_unreachable JSON_parse_tenant
        (sns_request ''Notification'' trusted_arn notification_body)) = [CallNext None]"
  using notification_forwarded [of "sns_request ''Notification'' trusted_arn notification_body"
      example_env "JStr tenant_message" JSON_parse_tenant "JObj [(''tenant'', JStr ''t1'')]"
      axios_unreachable]
  by (simp add: req_header_def sns_request_def example_env_def notification_body_def
        JSON_parse_tenant_def trusted_arn_def)

text \<open>
  C5 as stated fails: in that scenario the envelope carries the callback URL
  \<open>https://x\<close>, and the payload is the only thing stored in \<open>res.locals\<close>.
\<close>

theorem notification_callback_url_counterexample:
  "get_prop notification_body ''UnsubscribeURL'' = Inr (JStr ''https://x'')
   \<and> attached (handleSNSMessage example_env axios_unreachable JSON_parse_tenant
        (sns_request ''Notification'' trusted_arn notification_body))
       = [(''snsMessage'', JObj [(''tenant'', JStr ''t1'')])]"
  by (simp add: handleSNSMessage_def asyncHandler_def handleSNSMessage_fn_def req_header_def
        sns_request_def example_env_def notification_body_def JSON_parse_tenant_def
        trusted_arn_def)

text \<open>
  C1, as the code has it: when the GET of the confirmation URL resolves with a status
  other than 200, the function throws \<open>HandshakeConfirmationFailed\<close> (status 500) after
  logging it; the handler passes the error to \<open>next(err)\<close>, does not call \<open>next()\<close>
  and sends no response.
\<close>

theorem handshake_non200_fails:
  assumes "supported_type (req_header req ''X-Amz-Sns-Message-Type'')"
    and "req_header req ''X-Amz-Sns-Topic-Arn'' = SNS_TOPIC_SUBSCRIPTION_ARN cfg"
    and "truthy (req_body req)"
    and "get_prop (req_body req) ''Type'' = Inr (JStr ''SubscriptionConfirmation'')"
    and "get_prop (req_body req) ''SubscribeURL'' = Inr subscribeURL"
    and "axios_get subscribeURL = Inr statusCode"
    and "statusCode \<noteq> 200"
  shows "handleSNSMessage_fn cfg axios_get JSON_parse req =
           (Inl (HandshakeConfirmationFailed statusCode subscribeURL),
            [AxiosGet subscribeURL,
             Log ErrorLevel (Err (HandshakeConfirmationFailed statusCode subscribeURL))])
       \<and> handleSNSMessage cfg axios_get JSON_parse req =
           [AxiosGet subscribeURL,
            Log ErrorLevel (Err (HandshakeConfirmationFailed statusCode subscribeURL)),
            CallNext (Some (HandshakeConfirmationFailed statusCode subscribeURL))]
       \<and> filter is_forward (handleSNSMessage cfg axios_get JSON_parse req) = []
       \<and> filter is_response (handleSNSMessage cfg axios_get JSON_parse req) = []"
proof -
  have "handleSubscriptionResponse axios_get subscribeURL =
          (Inl (HandshakeConfirmationFailed statusCode subscribeURL),
           [AxiosGet subscribeURL,
            Log ErrorLevel (Err (HandshakeConfirmationFailed statusCode subscribeURL))])"
    using assms(6,7)
    by (simp add: handleSubscriptionResponse_def handleSubscriptionResponse_catch_def
          HandshakeConfirmationFailed_def)
  then have "handleSNSMessage_fn cfg axios_get JSON_parse req =
           (Inl (HandshakeConfirmationFailed statusCode subscribeURL),
            [AxiosGet subscribeURL,
             Log ErrorLevel (Err (HandshakeConfirmationFailed statusCode subscribeURL))])"
    using assms(1-5) by (simp add: handleSNSMessage_fn_def supported_type_def Let_def)
  then show ?thesis by (simp add: handleSNSMessage_def asyncHandler_def)
qed

theorem handshake_non200_fails_witness:
  "axios_status 204 (JStr ''https://sns.example/confirm'') = Inr 204
   \<and> handleSNSMessage example_env (axios_status 204) JSON_parse_tenant
       (sns_request ''SubscriptionConfirmation'' trusted_arn handshake_body) =
       [AxiosGet (JStr ''https://sns.example/confirm''),
        Log ErrorLevel
          (Err (HandshakeConfirmationFailed 204 (JStr ''https://sns.example/confirm''))),
        CallNext (Some (HandshakeConfirmationFailed 204 (JStr ''https://sns.example/confirm'')))]"
  using handshake_non200_fails [of
      "sns_request ''SubscriptionConfirmation'' trusted_arn handshake_body" example_env
      "JStr ''https://sns.example/confirm''" "axios_status 204" 204 JSON_parse_tenant]
  by (simp add: supported_type_def req_header_def sns_request_def example_env_def
        handshake_body_def axios_status_def trusted_arn_def)

text \<open>
  C1 as stated fails for a network failure: the rejection of the GET is not a
  \<open>SubscriptionError\<close>, so it is logged and not rethrown, the function returns normally
  and the handler answers 200 with the success body.
\<close>

theorem handshake_network_failure_counterexample:
  "axios_unreachable (JStr ''https://sns.example/confirm'')
     = Inl (ExternalError (Some ''ECONNREFUSED'') ''connect ECONNREFUSED'')
   \<and> handleSNSMessage_fn example_env axios_unreachable JSON_parse_tenant
       (sns_request ''SubscriptionConfirmation'' trusted_arn handshake_body)
     = (Inr (),
        [AxiosGet (JStr ''https://sns.example/confirm''),
         Log ErrorLevel (Err (ExternalError (Some ''ECONNREFUSED'') ''connect ECONNREFUSED'')),
         ResStatus 200,
         ResJson SuccessResponse])"
  by (simp add: handleSNSMessage_fn_def req_header_def sns_request_def example_env_def
        handshake_body_def axios_unreachable_def handleSubscriptionResponse_def
        handleSubscriptionResponse_catch_def trusted_arn_def)


section \<open>The reference check: properties\<close>

lemma map_of_filter_key:
  "P k \<Longrightarrow> map_of (filter (\<lambda>kv. P (fst kv)) fs) k = map_of fs k"
  by (induction fs) auto

lemma select_organization_keeps:
  "opt_chain (select_organization d) ''organization'' = opt_chain d ''organization''"
proof (cases d)
  case (JObj fs)
  have "map_of (filter (\<lambda>kv. (\<lambda>k. k = ''_id'' \<or> k = ''organization'') (fst kv)) fs)
          ''organization'' = map_of fs ''organization''"
    by (rule map_of_filter_key) simp
  with JObj show ?thesis by simp
qed simp_all

lemma store_find_valid:
  "list_all (\<lambda>r. opt_chain r ''organization'' = JStr organization)
     (map select_organization (filter (referenced ids) docs))
   = (\<forall>d\<in>set docs. referenced ids d \<longrightarrow> opt_chain d ''organization'' = JStr organization)"
  by (auto simp: list_all_iff select_organization_keeps)

lemma checkWorkspaceRefs_store:
  assumes "organization \<noteq> []"
  shows "fst (checkWorkspaceRefs (store_find docs) (Some ids) organization) =
           (if \<forall>d\<in>set docs. referenced ids d \<longrightarrow> opt_chain d ''organization'' = JStr organization
            then Inr () else Inl CrossTenantReference)"
proof (cases "ids = []")
  case True
  then show ?thesis using assms by (simp add: checkWorkspaceRefs_def referenced_def)
next
  case False
  then show ?thesis using assms
    by (simp add: checkWorkspaceRefs_def store_find_def store_find_valid Let_def
          CrossTenantReference_def)
qed

lemma referenced_append:
  "referenced (ids @ extra) d = (referenced ids d \<or> referenced extra d)"
  by (auto simp: referenced_def)

text \<open>
  C2: for a non-empty organization, the check succeeds exactly when every document of
  the store whose id is among the references has \<open>organization\<close> equal to the expected
  one; when it does not succeed it throws the \<open>DocumentError\<close> of status 400; with no
  references it succeeds without querying the store (no effect at all); and references
  to ids that no document has do not change the outcome.
\<close>

theorem checkWorkspaceRefs_same_tenant_iff:
  assumes "organization \<noteq> []"
  shows "(fst (checkWorkspaceRefs (store_find docs) (Some ids) organization) = Inr ()
            \<longleftrightarrow> (\<forall>d\<in>set docs. referenced ids d
                     \<longrightarrow> opt_chain d ''organization'' = JStr organization))
       \<and> (fst (checkWorkspaceRefs (store_find docs) (Some ids) organization) \<noteq> Inr ()
            \<longrightarrow> fst (checkWorkspaceRefs (store_find docs) (Some ids) organization)
                  = Inl CrossTenantReference)
       \<and> checkWorkspaceRefs (store_find docs) (Some []) organization = (Inr (), [])
       \<and> ((\<forall>d\<in>set docs. \<not> referenced extra d)
            \<longrightarrow> fst (checkWorkspaceRefs (store_find docs) (Some (ids @ extra)) organization)
                  = fst (checkWorkspaceRefs (store_find docs) (Some ids) organization))"
proof -
  have empty: "checkWorkspaceRefs (store_find docs) (Some []) organization = (Inr (), [])"
    using assms by (simp add: checkWorkspaceRefs_def)
  show ?thesis
    unfolding checkWorkspaceRefs_store [OF assms]
    using empty by (auto simp: referenced_append CrossTenantReference_def)
qed

text \<open>References to a document of the same workspace and to a missing id pass;
  a reference to a document of another workspace fails.\<close>

theorem checkWorkspaceRefs_same_tenant_iff_witness:
  "fst (checkWorkspaceRefs (store_find example_docs) (Some [''a1'', ''zz'']) ''t1'') = Inr ()
   \<and> fst (checkWorkspaceRefs (store_find example_docs) (Some [''a1'', ''b2'']) ''t1'')
       = Inl CrossTenantReference"
  using checkWorkspaceRefs_same_tenant_iff [of "''t1''" example_docs "[''a1'', ''zz'']" "[]"]
        checkWorkspaceRefs_same_tenant_iff [of "''t1''" example_docs "[''a1'', ''b2'']" "[]"]
  by (simp add: example_docs_def referenced_def)

text \<open>
  C10: a referenced document of the store whose \<open>organization\<close> is absent or \<open>null\<close>
  makes the check fail with the \<open>DocumentError\<close> of status 400, whatever the other
  references are.
\<close>

theorem missing_tenant_attribute_fails:
  assumes "organization \<noteq> []"
    and "d \<in> set docs"
    and "referenced ids d"
    and "opt_chain d ''organization'' = JUndefined \<or> opt_chain d ''organization'' = JNull"
  shows "fst (checkWorkspaceRefs (store_find docs) (Some ids) organization)
           = Inl (DocumentError
                    ''Could not save document. Invalid references saved on document.'' 400)"
proof -
  have "\<not> (\<forall>d\<in>set docs. referenced ids d
              \<longrightarrow> opt_chain d ''organization'' = JStr organization)"
    using assms(2-4) by auto
  then show ?thesis
    by (simp add: checkWorkspaceRefs_store [OF assms(1)] CrossTenantReference_def)
qed

text \<open>One reference to a document of workspace \<open>t1\<close> and one to a document without
  the attribute; and a reference to a document whose attribute is \<open>null\<close>.\<close>

theorem missing_tenant_attribute_fails_witness:
  "fst (checkWorkspaceRefs (store_find example_docs) (Some [''a1'', ''c3'']) ''t1'')
     = Inl (DocumentError
              ''Could not save document. Invalid references saved on document.'' 400)
   \<and> fst (checkWorkspaceRefs (store_find example_docs) (Some [''d4'']) ''t1'')
     = Inl (DocumentError
              ''Could not save document. Invalid references saved on document.'' 400)"
  using missing_tenant_attribute_fails [of "''t1''"
      "JObj [(''_id'', JStr ''c3''), (''name'', JStr ''no workspace'')]" example_docs
      "[''a1'', ''c3'']"]
    missing_tenant_attribute_fails [of "''t1''"
      "JObj [(''_id'', JStr ''d4''), (''organization'', JNull)]" example_docs "[''d4'']"]
  by (simp add: example_docs_def referenced_def)


section \<open>The S3 helpers: properties\<close>

text \<open>
  C3, as the code has it: for a key that has no object in the bucket (and a store that
  answers the request) \<open>s3KeyExists\<close> returns \<open>undefined\<close> and does not throw; and it
  throws exactly when \<open>headObject\<close> is rejected with a code other than \<open>NotFound\<close>,
  and then an \<open>UploadError\<close> with the message of the rejection.
\<close>

theorem s3KeyExists_missing_key:
  "(s3_objects s3 (default_to (S3_ASSETS_BUCKET cfg) b, k) = None
      \<and> s3_fault s3 (HeadObject \<lparr>head_Bucket = default_to (S3_ASSETS_BUCKET cfg) b,
                                  head_Key = k\<rparr>) = None
    \<longrightarrow> fst (s3KeyExists cfg s3 k b) = Inr None)
   \<and> (fst (s3KeyExists cfg s3 k b) = Inl e
        \<longleftrightarrow> (\<exists>err. s3_headObject s3 \<lparr>head_Bucket = default_to (S3_ASSETS_BUCKET cfg) b,
                                        head_Key = k\<rparr> = Inl err
                  \<and> err_code err \<noteq> Some ''NotFound''
                  \<and> e = UploadError (''Failed to request file meta from S3. ''
                                        @ err_message err)))"
  by (auto simp: s3KeyExists_def s3_headObject_def Let_def split: sum.splits option.splits)

theorem s3KeyExists_missing_key_witness:
  "s3_objects empty_s3 (''assets'', ''tiles/0/0/0.png'') = None
   \<and> fst (s3KeyExists example_env empty_s3 ''tiles/0/0/0.png'' None) = Inr None
   \<and> fst (s3KeyExists example_env denied_s3 ''tiles/0/0/0.png'' None)
       = Inl (UploadError ''Failed to request file meta from S3. Access Denied'')"
  using s3KeyExists_missing_key [of empty_s3 example_env None "''tiles/0/0/0.png''"
      "UploadError ''Failed to request file meta from S3. Access Denied''"]
    s3KeyExists_missing_key [of denied_s3 example_env None "''tiles/0/0/0.png''"
      "UploadError ''Failed to request file meta from S3. Access Denied''"]
  by (simp add: example_env_def empty_s3_def denied_s3_def s3_headObject_def)

text \<open>
  C3 as stated fails: the \<open>catch\<close> block calls \<open>logger.error\<close> before it looks at the
  code, so the probe of a missing key writes one log line of error severity.
\<close>

theorem s3KeyExists_error_log_counterexample:
  "s3_objects empty_s3 (''assets'', ''tiles/0/0/0.png'') = None
   \<and> fst (s3KeyExists example_env empty_s3 ''tiles/0/0/0.png'' None) = Inr None
   \<and> filter is_error_log (snd (s3KeyExists example_env empty_s3 ''tiles/0/0/0.png'' None))
       = [Log ErrorLevel (Msg ''Not Found'')]"
  by (simp add: s3KeyExists_def s3_headObject_def example_env_def empty_s3_def)

text \<open>
  C6: a prefix argument that is neither a string nor an array of strings makes
  \<open>createLifecyclePolicy\<close> throw the \<open>S3Error\<close> for the unsupported format with no
  effect: no call to the store, which is left as it was.
\<close>

theorem createLifecyclePolicy_rejects_shape:
  assumes "\<not> isString objectKeyPrefix"
    and "\<not> (isArray objectKeyPrefix \<and> every objectKeyPrefix isString)"
  shows "createLifecyclePolicy cfg s3 objectKeyPrefix b t =
           ((Inl (S3Error ''Unsupported object key prefix format.''), []), s3)"
proof -
  have "keyPrefixes_of objectKeyPrefix = Inl (S3Error ''Unsupported object key prefix format.'')"
    using assms by (auto simp: keyPrefixes_of_def)
  then show ?thesis by (simp add: createLifecyclePolicy_def)
qed

text \<open>A number, and an array with a number in it.\<close>

theorem createLifecyclePolicy_rejects_shape_witness:
  "\<not> isString (JNum 7)
   \<and> createLifecyclePolicy example_env empty_s3 (JNum 7) None None =
       ((Inl (S3Error ''Unsupported object key prefix format.''), []), empty_s3)
   \<and> createLifecyclePolicy example_env empty_s3 (JArr [JStr ''tiles/'', JNum 3])
         (Some ''b'') (Some 2) =
       ((Inl (S3Error ''Unsupported object key prefix format.''), []), empty_s3)"
  using createLifecyclePolicy_rejects_shape [of "JNum 7" example_env empty_s3 None None]
    createLifecyclePolicy_rejects_shape [of "JArr [JStr ''tiles/'', JNum 3]" example_env
      empty_s3 "Some ''b''" "Some 2"]
  by simp

text \<open>
  C7: for a string or an array of strings, \<open>createLifecyclePolicy\<close> makes exactly one
  call to the store, \<open>putBucketLifecycleConfiguration\<close>, and returns a boolean without
  throwing: \<open>true\<close> when the store accepts that request, \<open>false\<close> when it rejects it.
\<close>

theorem createLifecyclePolicy_boolean:
  assumes "isString objectKeyPrefix
             \<or> (isArray objectKeyPrefix \<and> every objectKeyPrefix isString)"
  shows "\<exists>params.
           filter is_s3_call (snd (fst (createLifecyclePolicy cfg s3 objectKeyPrefix b t)))
             = [S3Call (PutBucketLifecycleConfiguration params)]
         \<and> fst (fst (createLifecyclePolicy cfg s3 objectKeyPrefix b t))
             = Inr (s3_fault s3 (PutBucketLifecycleConfiguration params) = None)"
proof -
  have "\<exists>ks. keyPrefixes_of objectKeyPrefix = Inr ks"
    using assms by (auto simp: keyPrefixes_of_def)
  then obtain ks where ks: "keyPrefixes_of objectKeyPrefix = Inr ks" ..
  show ?thesis
    by (auto simp: createLifecyclePolicy_def ks Let_def s3_putBucketLifecycleConfiguration_def
          split: option.splits)
qed

theorem createLifecyclePolicy_boolean_witness:
  "fst (fst (createLifecyclePolicy example_env empty_s3 (JStr ''tiles/'') None None)) = Inr True
   \<and> fst (fst (createLifecyclePolicy example_env denied_s3 (JArr [JStr ''a/'', JStr ''b/''])
              None (Some 3))) = Inr False"
  using createLifecyclePolicy_boolean [of "JStr ''tiles/''" example_env empty_s3 None None]
    createLifecyclePolicy_boolean [of "JArr [JStr ''a/'', JStr ''b/'']" example_env denied_s3
      None "Some 3"]
  by (auto simp: empty_s3_def denied_s3_def)

text \<open>
  C8: after a successful \<open>s3StreamUpload\<close> of key \<open>K\<close> to a bucket, \<open>s3KeyExists\<close> for
  the same key and bucket, on the store the upload left and answered by it, returns a
  storage event with that key and bucket, the entity tag the upload returned, and the
  storage URL \<open>urljoin(S3_ENDPOINT_URL, bucket, K)\<close>, which is also the URL the upload
  returned.
\<close>

theorem upload_then_probe:
  assumes "s3StreamUpload cfg s3 readable K contentType md b = ((Inr ev, fx), s3')"
    and "s3_fault s3' (HeadObject \<lparr>head_Bucket = default_to (S3_ASSETS_BUCKET cfg) b,
                                   head_Key = K\<rparr>) = None"
  shows "\<exists>ev' fx'. s3KeyExists cfg s3' K b = (Inr (Some ev'), fx')
           \<and> key ev' = K \<and> key ev = K
           \<and> bucket ev' = default_to (S3_ASSETS_BUCKET cfg) b
           \<and> bucket ev = default_to (S3_ASSETS_BUCKET cfg) b
           \<and> etag ev' = etag ev
           \<and> storageUrl ev' =
               urljoin cfg [S3_ENDPOINT_URL cfg, default_to (S3_ASSETS_BUCKET cfg) b, K]
           \<and> storageUrl ev =
               urljoin cfg [S3_ENDPOINT_URL cfg, default_to (S3_ASSETS_BUCKET cfg) b, K]"
  using assms
  by (auto simp: s3StreamUpload_def s3_upload_def s3KeyExists_def s3_headObject_def Let_def
        getStorageUrl_def split: option.splits)


text \<open>Five bytes uploaded to \<open>maps/k/x.png\<close> on an empty store, then probed.\<close>

theorem upload_then_probe_witness:
  "fst (fst (s3StreamUpload example_env empty_s3 ''bytes'' ''k/x.png'' ''image/png'' None
               (Some ''maps'')))
     = Inr \<lparr>bucket = ''maps'', key = ''k/x.png'',
            storageUrl = ''http://localhost:4572/maps/k/x.png'',
            etag = ''etag:setyb'', metadata = None\<rparr>
   \<and> fst (s3KeyExists example_env uploaded_s3 ''k/x.png'' (Some ''maps''))
     = Inr (Some \<lparr>bucket = ''maps'', key = ''k/x.png'',
                  storageUrl = ''http://localhost:4572/maps/k/x.png'',
                  etag = ''etag:setyb'', metadata = None\<rparr>)"
  using upload_then_probe [of example_env empty_s3 "''bytes''" "''k/x.png''" "''image/png''"
      None "Some ''maps''"
      "\<lparr>bucket = ''maps'', key = ''k/x.png'',
        storageUrl = ''http://localhost:4572/maps/k/x.png'',
        etag = ''etag:setyb'', metadata = None\<rparr>"
      "snd (fst (s3StreamUpload example_env empty_s3 ''bytes'' ''k/x.png'' ''image/png'' None
                   (Some ''maps'')))"
      uploaded_s3]
  by (simp add: uploaded_s3_def s3StreamUpload_def s3_upload_def s3KeyExists_def
        s3_headObject_def example_env_def empty_s3_def getStorageUrl_def Let_def)

end
